theory Spec2Isabelle
  imports Complex_Main "HOL-Library.AList"
begin

section \<open>JavaScript values and strings\<close>

text \<open>
  The backend of the URL shortener is three CommonJS modules: the validation service
  (\<^verbatim>\<open>validateShortcode\<close>, \<^verbatim>\<open>validateUrl\<close>, \<^verbatim>\<open>validateValidity\<close>), the URL service
  (the in-memory \<^verbatim>\<open>urlStorage\<close> map and its accessors) and the URL controller
  (\<^verbatim>\<open>createShortUrl\<close>, \<^verbatim>\<open>redirectToUrl\<close>, \<^verbatim>\<open>getUrlStats\<close>).

  A JavaScript string is modelled as a \<^typ>\<open>string\<close>; one \<^typ>\<open>char\<close> stands for one
  UTF-16 code unit below 256, so \<^const>\<open>length\<close> is the \<^verbatim>\<open>.length\<close> of the source.
  A property that may be \<^verbatim>\<open>undefined\<close> or \<^verbatim>\<open>null\<close> is a \<^typ>\<open>string option\<close>.
  Points in time are integers, the milliseconds of \<^verbatim>\<open>Date.now()\<close>; the source keeps
  them as ISO strings (\<^verbatim>\<open>toISOString\<close>) and reads them back with \<^verbatim>\<open>new Date\<close>, which
  returns the same millisecond.
\<close>

text \<open>
  The \<^verbatim>\<open>validity\<close> field of a request body is whatever the JSON or form parser put
  there. \<open>JSNumber r\<close> is a finite number of value \<open>r\<close>, \<open>JSNonFinite\<close> is
  \<^verbatim>\<open>Infinity\<close>, \<^verbatim>\<open>-Infinity\<close> or \<^verbatim>\<open>NaN\<close>, \<open>JSObject\<close> any array or object.
\<close>

datatype jsvalue =
    JSUndefined
  | JSNull
  | JSBoolean bool
  | JSNumber rat
  | JSNonFinite
  | JSString string
  | JSObject

text \<open>\<^verbatim>\<open>!x\<close> on a string-or-absent value: absent and the empty string are falsy.\<close>

definition falsy :: "string option \<Rightarrow> bool" where
  "falsy x = (case x of None \<Rightarrow> True | Some s \<Rightarrow> s = [])"

text \<open>\<^verbatim>\<open>x || d\<close> on a string-or-absent value.\<close>

definition or_default :: "string option \<Rightarrow> string \<Rightarrow> string" where
  "or_default x d = (case x of None \<Rightarrow> d | Some s \<Rightarrow> if s = [] then d else s)"

text \<open>The character classes of the regular expressions, by code unit.\<close>

definition is_lower :: "char \<Rightarrow> bool" where
  "is_lower c = (97 \<le> (of_char c :: nat) \<and> (of_char c :: nat) \<le> 122)"

definition is_upper :: "char \<Rightarrow> bool" where
  "is_upper c = (65 \<le> (of_char c :: nat) \<and> (of_char c :: nat) \<le> 90)"

definition is_digit :: "char \<Rightarrow> bool" where
  "is_digit c = (48 \<le> (of_char c :: nat) \<and> (of_char c :: nat) \<le> 57)"

definition is_alnum :: "char \<Rightarrow> bool" where
  "is_alnum c = (is_lower c \<or> is_upper c \<or> is_digit c)"

text \<open>
  \<^verbatim>\<open>String.prototype.toLowerCase\<close> on code units below 256: the ASCII capitals and
  the Latin-1 capitals (192 to 222 without the multiplication sign 215) move up by 32.
\<close>

definition lower_char :: "char \<Rightarrow> char" where
  "lower_char c =
     (let n = (of_char c :: nat) in
      if (65 \<le> n \<and> n \<le> 90) \<or> (192 \<le> n \<and> n \<le> 222 \<and> n \<noteq> 215)
      then char_of (n + 32) else c)"

definition toLowerCase :: "string \<Rightarrow> string" where
  "toLowerCase s = map lower_char s"

text \<open>
  \<^verbatim>\<open>String.prototype.trim\<close>: white space and line terminators below 256 are tab, line
  feed, vertical tab, form feed, carriage return, space and the no-break space.
\<close>

definition is_space :: "char \<Rightarrow> bool" where
  "is_space c = ((of_char c :: nat) \<in> {9, 10, 11, 12, 13, 32, 160})"

definition trim :: "string \<Rightarrow> string" where
  "trim s = rev (dropWhile is_space (rev (dropWhile is_space s)))"

definition startsWith :: "string \<Rightarrow> char \<Rightarrow> bool" where
  "startsWith s c = (case s of [] \<Rightarrow> False | x # _ \<Rightarrow> x = c)"

definition endsWith :: "string \<Rightarrow> char \<Rightarrow> bool" where
  "endsWith s c = startsWith (rev s) c"

section \<open>The validation service\<close>

text \<open>
  Every validator returns an object \<^verbatim>\<open>{isValid, error}\<close>; \<^verbatim>\<open>validateUrl\<close> adds
  \<^verbatim>\<open>normalizedUrl\<close> and \<^verbatim>\<open>validateValidity\<close> adds \<^verbatim>\<open>value\<close> on success. A field
  that the object does not have reads as \<open>None\<close>.
\<close>

record validation =
  isValid :: bool
  error :: "string option"

record urlValidation = validation +
  normalizedUrl :: "string option"

record validityValidation = validation +
  validity_value :: "int option"

text \<open>\<^verbatim>\<open>/^[a-zA-Z0-9]+$/.test(s)\<close>: one or more characters, all of them alphanumeric.\<close>

definition alphanumericRegex :: "string \<Rightarrow> bool" where
  "alphanumericRegex s = (s \<noteq> [] \<and> list_all is_alnum s)"

definition reservedWords :: "string list" where
  "reservedWords = [''api'', ''admin'', ''www'', ''shorturls'', ''health'', ''stats'']"

definition validateShortcode :: "string option \<Rightarrow> validation" where
  "validateShortcode shortcode =
     (case shortcode of
        None \<Rightarrow> \<lparr>isValid = False, error = Some ''Shortcode cannot be empty''\<rparr>
      | Some s \<Rightarrow>
          if s = [] then
            \<lparr>isValid = False, error = Some ''Shortcode cannot be empty''\<rparr>
          else if length s < 4 \<or> length s > 10 then
            \<lparr>isValid = False,
             error = Some ''Shortcode must be between 4 and 10 characters long''\<rparr>
          else if \<not> alphanumericRegex s then
            \<lparr>isValid = False,
             error = Some ''Shortcode can only contain alphanumeric characters (a-z, A-Z, 0-9)''\<rparr>
          else if toLowerCase s \<in> set reservedWords then
            \<lparr>isValid = False,
             error = Some ''Shortcode uses a reserved word. Please choose a different shortcode.''\<rparr>
          else
            \<lparr>isValid = True, error = None\<rparr>)"

text \<open>
  \<^verbatim>\<open>new URL(s)\<close> is the platform's parser, not code of the repository: it is a
  parameter \<open>newURL\<close> of the model, \<open>None\<close> where the constructor throws, and
  otherwise the two properties the validator reads.
\<close>

record urlObj =
  protocol :: string
  hostname :: string

text \<open>\<^verbatim>\<open>/^[a-zA-Z0-9.-]+$/.test(h)\<close>.\<close>

definition hostnameRegex :: "string \<Rightarrow> bool" where
  "hostnameRegex h =
     (h \<noteq> [] \<and> list_all (\<lambda>c. is_alnum c \<or> c = CHR ''.'' \<or> c = CHR ''-'') h)"

definition url_error :: "string \<Rightarrow> urlValidation" where
  "url_error msg = \<lparr>isValid = False, error = Some msg, normalizedUrl = None\<rparr>"

definition validateUrl :: "(string \<Rightarrow> urlObj option) \<Rightarrow> string option \<Rightarrow> urlValidation" where
  "validateUrl newURL url =
     (case url of
        None \<Rightarrow> url_error ''URL is required''
      | Some u \<Rightarrow>
          if u = [] then url_error ''URL is required''
          else
            let trimmedUrl = trim u in
            if CHR '' '' \<in> set trimmedUrl then url_error ''URL cannot contain spaces''
            else
              (case newURL trimmedUrl of
                None \<Rightarrow> url_error ''Invalid URL format''
              | Some urlObj \<Rightarrow>
                  if protocol urlObj \<notin> set [''http:'', ''https:''] then
                    url_error ''URL must use http:// or https:// protocol''
                  else if hostname urlObj = [] then
                    url_error ''URL must have a valid hostname''
                  else if \<not> hostnameRegex (hostname urlObj)
                          \<or> CHR ''.'' \<notin> set (hostname urlObj) then
                    url_error ''URL must have a valid domain name''
                  else if startsWith (hostname urlObj) (CHR ''-'')
                          \<or> endsWith (hostname urlObj) (CHR ''-'')
                          \<or> startsWith (hostname urlObj) (CHR ''.'')
                          \<or> endsWith (hostname urlObj) (CHR ''.'') then
                    url_error ''URL domain name format is invalid''
                  else
                    \<lparr>isValid = True, error = None, normalizedUrl = Some trimmedUrl\<rparr>))"

text \<open>
  \<^verbatim>\<open>Number.isInteger(v)\<close>: \<open>v\<close> is a finite number without a fractional part; every
  other kind of value, a numeric string included, is not an integer.
\<close>

definition isInteger :: "jsvalue \<Rightarrow> bool" where
  "isInteger v = (case v of JSNumber r \<Rightarrow> of_int \<lfloor>r\<rfloor> = r | _ \<Rightarrow> False)"

definition validateValidity :: "jsvalue \<Rightarrow> validityValidation" where
  "validateValidity validity =
     (if validity = JSUndefined \<or> validity = JSNull then
        \<lparr>isValid = True, error = None, validity_value = Some 30\<rparr>
      else if \<not> isInteger validity then
        \<lparr>isValid = False, error = Some ''Validity must be an integer'', validity_value = None\<rparr>
      else
        case validity of
          JSNumber r \<Rightarrow>
            if r < 1 \<or> r > 43200 then
              \<lparr>isValid = False,
               error = Some ''Validity must be between 1 and 43200 minutes (30 days)'',
               validity_value = None\<rparr>
            else
              \<lparr>isValid = True, error = None, validity_value = Some \<lfloor>r\<rfloor>\<rparr>
        | _ \<Rightarrow>
            \<lparr>isValid = False, error = Some ''Validity must be an integer'', validity_value = None\<rparr>)"

section \<open>The URL service\<close>

text \<open>
  One click, as \<^verbatim>\<open>redirectToUrl\<close> builds it, and the four properties of it that
  \<^verbatim>\<open>getUrlStats\<close> reports.
\<close>

record clickView =
  timestamp :: int
  referrer :: string
  location :: string
  userAgent :: string

record clickData = clickView +
  ip :: string

text \<open>One entry of the storage, as \<^verbatim>\<open>createShortUrl\<close> builds it.\<close>

record urlEntry =
  shortcode :: string
  originalUrl :: string
  createdAt :: int
  expiresAt :: int
  clicks :: "clickData list"

text \<open>
  \<^verbatim>\<open>urlStorage\<close> is a JavaScript \<^verbatim>\<open>Map\<close>: an association list in insertion order.
  \<^verbatim>\<open>has\<close> and \<^verbatim>\<open>get\<close> are \<^const>\<open>map_of\<close>; \<^verbatim>\<open>set\<close> is \<^const>\<open>AList.update\<close>, which
  replaces the value of a key in place and appends a new key at the end;
  \<^verbatim>\<open>delete\<close> is \<^const>\<open>AList.delete\<close>. The keys of a \<^verbatim>\<open>Map\<close> are distinct.
\<close>

type_synonym urlStorage = "(string \<times> urlEntry) list"

definition shortcodeExists :: "urlStorage \<Rightarrow> string \<Rightarrow> bool" where
  "shortcodeExists urlStorage code = (map_of urlStorage code \<noteq> None)"

definition storeUrl :: "urlEntry \<Rightarrow> urlStorage \<Rightarrow> urlStorage" where
  "storeUrl urlEntry urlStorage = AList.update (shortcode urlEntry) urlEntry urlStorage"

definition getUrl :: "urlStorage \<Rightarrow> string \<Rightarrow> urlEntry option" where
  "getUrl urlStorage code = map_of urlStorage code"

text \<open>
  What a call of the service hands back to its caller: \<^verbatim>\<open>recordClick\<close> has no
  \<^verbatim>\<open>return\<close> and no \<^verbatim>\<open>throw\<close>, so its caller always gets \<^verbatim>\<open>undefined\<close>.
\<close>

datatype service_error = NotFoundError

datatype completion = ReturnsUndefined | Throws service_error

text \<open>
  \<^verbatim>\<open>recordClick\<close>: the entry of the code gets the click pushed on its \<^verbatim>\<open>clicks\<close> and
  is stored again under the same key; without an entry nothing happens.
\<close>

definition recordClick :: "string \<Rightarrow> clickData \<Rightarrow> urlStorage \<Rightarrow> completion \<times> urlStorage" where
  "recordClick code clickData urlStorage =
     (case map_of urlStorage code of
        Some urlEntry \<Rightarrow>
          (ReturnsUndefined,
           AList.update code (urlEntry\<lparr>clicks := clicks urlEntry @ [clickData]\<rparr>) urlStorage)
      | None \<Rightarrow> (ReturnsUndefined, urlStorage))"

definition getAllUrls :: "urlStorage \<Rightarrow> urlEntry list" where
  "getAllUrls urlStorage = map snd urlStorage"

text \<open>
  \<^verbatim>\<open>cleanupExpiredUrls\<close>: a first loop collects the codes whose entry has
  \<^verbatim>\<open>expiresAt < now\<close>, a second one deletes them; the result is how many were collected.
\<close>

definition cleanupExpiredUrls :: "int \<Rightarrow> urlStorage \<Rightarrow> nat \<times> urlStorage" where
  "cleanupExpiredUrls now urlStorage =
     (let expiredShortcodes =
            map fst (filter (\<lambda>(code, urlEntry). expiresAt urlEntry < now) urlStorage)
      in (length expiredShortcodes, fold AList.delete expiredShortcodes urlStorage))"

text \<open>
  \<^verbatim>\<open>nanoid\<close> is the npm package of that name, not code of the repository. As
  published, \<^verbatim>\<open>nanoid(n)\<close> draws \<open>n\<close> random bytes and maps each byte \<open>b\<close> to
  the symbol at index \<^verbatim>\<open>b & 63\<close> of its URL-friendly alphabet of 64 symbols: the
  letters, the digits, the underscore and the hyphen. The random source is a
  parameter: \<open>rnd i\<close> is the \<open>i\<close>-th byte drawn during the call.
\<close>

definition urlAlphabet :: string where
  "urlAlphabet = ''useandom-26T198340PX75pxJACKVERYMINDBUSHWOLF_GQZbfghjklqvwyzrict''"

definition nanoid :: "nat \<Rightarrow> (nat \<Rightarrow> nat) \<Rightarrow> nat \<Rightarrow> string" where
  "nanoid n rnd k = map (\<lambda>i. urlAlphabet ! (rnd i mod 64)) [k ..< k + n]"

text \<open>
  \<^verbatim>\<open>generateShortcode\<close>: \<^verbatim>\<open>do { shortcode = nanoid(6) } while (urlStorage.has(shortcode))\<close>.
  The loop has no bound; a run that never leaves it is \<open>None\<close>. \<open>k\<close> counts the
  bytes drawn so far.
\<close>

partial_function (option) generateShortcode_from ::
  "(nat \<Rightarrow> nat) \<Rightarrow> nat \<Rightarrow> urlStorage \<Rightarrow> string option" where
  "generateShortcode_from rnd k urlStorage =
     (if shortcodeExists urlStorage (nanoid 6 rnd k)
      then generateShortcode_from rnd (k + 6) urlStorage
      else Some (nanoid 6 rnd k))"

definition generateShortcode :: "(nat \<Rightarrow> nat) \<Rightarrow> urlStorage \<Rightarrow> string option" where
  "generateShortcode rnd urlStorage = generateShortcode_from rnd 0 urlStorage"

section \<open>The URL controller\<close>

text \<open>
  What a handler sends: \<^verbatim>\<open>res.status(n).json({error, message})\<close>, the body
  \<^verbatim>\<open>{shortLink, expiry}\<close> with status 201, the statistics with status 200, or
  \<^verbatim>\<open>res.redirect(302, url)\<close>.
\<close>

record urlStats =
  stats_shortcode :: string
  stats_originalUrl :: string
  stats_createdAt :: int
  stats_expiresAt :: int
  totalClicks :: nat
  stats_clicks :: "clickView list"

datatype response =
    ErrorJson nat string "string option"
  | CreatedJson nat string int
  | StatsJson nat urlStats
  | Redirect nat string

text \<open>
  The body of \<^verbatim>\<open>POST /shorturls\<close>. The model covers the requests whose \<^verbatim>\<open>url\<close> and
  \<^verbatim>\<open>shortcode\<close> are strings or absent.
\<close>

record body =
  url :: "string option"
  validity :: jsvalue
  body_shortcode :: "string option"

text \<open>\<^verbatim>\<open>`http://localhost:${process.env.PORT || 3100}/${finalShortcode}`\<close>.\<close>

definition shortLink :: "string option \<Rightarrow> string \<Rightarrow> string" where
  "shortLink PORT finalShortcode =
     ''http://localhost:'' @ or_default PORT ''3100'' @ ''/'' @ finalShortcode"

text \<open>
  \<^verbatim>\<open>createShortUrl\<close>. The clock is read twice, \<open>now\<close> for the expiry and
  \<open>now_created\<close> for \<^verbatim>\<open>createdAt\<close>. The calls of the logger change nothing that
  the handler reads and are left out. The result is \<open>None\<close> when
  \<^verbatim>\<open>generateShortcode\<close> does not return. A validation that reports success without
  a \<^verbatim>\<open>value\<close> would make the expiry an invalid date, whose \<^verbatim>\<open>toISOString\<close> throws
  into the handler's \<^verbatim>\<open>catch\<close>.
\<close>

definition createShortUrl ::
  "(string \<Rightarrow> urlObj option) \<Rightarrow> string option \<Rightarrow> (nat \<Rightarrow> nat) \<Rightarrow> int \<Rightarrow> int \<Rightarrow> body
     \<Rightarrow> urlStorage \<Rightarrow> (response \<times> urlStorage) option" where
  "createShortUrl newURL PORT rnd now now_created req urlStorage =
     (if falsy (url req) then
        Some (ErrorJson 400 ''Validation Error'' (Some ''URL is required''), urlStorage)
      else
        let urlValidation = validateUrl newURL (url req) in
        if \<not> isValid urlValidation then
          Some (ErrorJson 400 ''Validation Error'' (error urlValidation), urlStorage)
        else
          let validityValidation = validateValidity (validity req) in
          if \<not> isValid validityValidation then
            Some (ErrorJson 400 ''Validation Error'' (error validityValidation), urlStorage)
          else if \<not> falsy (body_shortcode req)
                  \<and> \<not> isValid (validateShortcode (body_shortcode req)) then
            Some (ErrorJson 400 ''Validation Error''
                    (error (validateShortcode (body_shortcode req))), urlStorage)
          else if \<not> falsy (body_shortcode req)
                  \<and> shortcodeExists urlStorage (or_default (body_shortcode req) []) then
            Some (ErrorJson 409 ''Conflict''
                    (Some ''Shortcode already exists. Please choose a different one.''),
                  urlStorage)
          else
            case (if falsy (body_shortcode req) then generateShortcode rnd urlStorage
                  else body_shortcode req) of
              None \<Rightarrow> None
            | Some finalShortcode \<Rightarrow>
                (case validity_value validityValidation of
                   None \<Rightarrow>
                     Some (ErrorJson 500 ''Internal Server Error''
                             (Some ''Failed to create short URL''), urlStorage)
                 | Some validityMinutes \<Rightarrow>
                     let expiresAt = now + validityMinutes * 60 * 1000;
                         urlEntry = \<lparr>shortcode = finalShortcode,
                                     originalUrl = or_default (url req) [],
                                     createdAt = now_created,
                                     expiresAt = expiresAt,
                                     clicks = []\<rparr>
                     in Some (CreatedJson 201 (shortLink PORT finalShortcode) expiresAt,
                              storeUrl urlEntry urlStorage)))"

text \<open>
  The request of \<^verbatim>\<open>GET /:shortcode\<close>: the route parameter, the two headers the
  handler reads with \<^verbatim>\<open>req.get\<close>, \<^verbatim>\<open>req.ip\<close> and \<^verbatim>\<open>req.connection.remoteAddress\<close>.
\<close>

record request =
  params_shortcode :: string
  header_User_Agent :: "string option"
  req_ip :: "string option"
  remoteAddress :: "string option"
  header_Referer :: "string option"

text \<open>
  \<^verbatim>\<open>geoip.lookup\<close> and \<^verbatim>\<open>UAParser\<close> are npm packages: parameters of the model. The
  first returns \<^verbatim>\<open>null\<close> or an object with \<^verbatim>\<open>city\<close> and \<^verbatim>\<open>country\<close>, the second an
  object whose \<^verbatim>\<open>browser\<close> has \<^verbatim>\<open>name\<close> and \<^verbatim>\<open>version\<close>.
\<close>

record geo =
  city :: "string option"
  country :: "string option"

record browser =
  name :: "string option"
  version :: "string option"

text \<open>
  \<^verbatim>\<open>ip.replace(/^.*:/, '')\<close>: the dot stops at a line terminator and the star is
  greedy, so what goes is the start of the first line up to its last colon.
\<close>

definition is_line_terminator :: "char \<Rightarrow> bool" where
  "is_line_terminator c = ((of_char c :: nat) \<in> {10, 13})"

definition strip_ipv6_prefix :: "string \<Rightarrow> string" where
  "strip_ipv6_prefix s =
     (let line = takeWhile (\<lambda>c. \<not> is_line_terminator c) s in
      if CHR '':'' \<in> set line
      then rev (takeWhile (\<lambda>c. c \<noteq> CHR '':'') (rev line)) @ drop (length line) s
      else s)"

definition clickData_of ::
  "(string \<Rightarrow> geo option) \<Rightarrow> (string \<Rightarrow> browser) \<Rightarrow> int \<Rightarrow> request \<Rightarrow> clickData" where
  "clickData_of geoip_lookup UAParser now_click req =
     (let userAgent = or_default (header_User_Agent req) ''Unknown'';
          ip = or_default (req_ip req) (or_default (remoteAddress req) ''Unknown'');
          referrer = or_default (header_Referer req) ''Direct'';
          location = (case geoip_lookup ip of
                        Some geo \<Rightarrow> or_default (city geo) ''Unknown'' @ '', ''
                                      @ or_default (country geo) ''Unknown''
                      | None \<Rightarrow> ''Unknown'');
          result = UAParser userAgent;
          browser = trim (or_default (name result) ''Unknown'' @ '' ''
                          @ or_default (version result) [])
      in \<lparr>timestamp = now_click, referrer = referrer, location = location,
          userAgent = browser, ip = strip_ipv6_prefix ip\<rparr>)"

text \<open>
  \<^verbatim>\<open>redirectToUrl\<close>. The clock is read at the expiry check (\<open>now\<close>) and again for
  the click's time stamp (\<open>now_click\<close>). The response \<open>Redirect 302 u\<close> records the
  two arguments of \<^verbatim>\<open>res.redirect\<close>.
\<close>

definition redirectToUrl ::
  "(string \<Rightarrow> geo option) \<Rightarrow> (string \<Rightarrow> browser) \<Rightarrow> int \<Rightarrow> int \<Rightarrow> request
     \<Rightarrow> urlStorage \<Rightarrow> response \<times> urlStorage" where
  "redirectToUrl geoip_lookup UAParser now now_click req urlStorage =
     (case getUrl urlStorage (params_shortcode req) of
        None \<Rightarrow> (ErrorJson 404 ''Not Found'' (Some ''Short URL not found''), urlStorage)
      | Some urlEntry \<Rightarrow>
          if now > expiresAt urlEntry then
            (ErrorJson 410 ''Gone'' (Some ''Short URL has expired''), urlStorage)
          else
            let clickData = clickData_of geoip_lookup UAParser now_click req
            in (Redirect 302 (originalUrl urlEntry),
                snd (recordClick (params_shortcode req) clickData urlStorage)))"

text \<open>
  \<^verbatim>\<open>getUrlStats\<close>: the storage is only read, and the clock is not read at all. Each
  click is mapped to an object of four of its five properties.
\<close>

definition project_click :: "clickData \<Rightarrow> clickView" where
  "project_click click =
     \<lparr>timestamp = timestamp click, referrer = referrer click,
      location = location click, userAgent = userAgent click\<rparr>"

definition getUrlStats :: "string \<Rightarrow> urlStorage \<Rightarrow> response" where
  "getUrlStats code urlStorage =
     (case getUrl urlStorage code of
        None \<Rightarrow> ErrorJson 404 ''Not Found'' (Some ''Short URL not found'')
      | Some urlEntry \<Rightarrow>
          StatsJson 200
            \<lparr>stats_shortcode = shortcode urlEntry,
             stats_originalUrl = originalUrl urlEntry,
             stats_createdAt = createdAt urlEntry,
             stats_expiresAt = expiresAt urlEntry,
             totalClicks = length (clicks urlEntry),
             stats_clicks = map project_click (clicks urlEntry)\<rparr>)"

section \<open>Runs of the service\<close>

text \<open>
  The calls that reach the storage, each with the inputs it reads: a request body or
  a request, the readings of the clock, the random bytes. The libraries and the port
  are the same for a whole run.
\<close>

datatype operation =
    Create body "nat \<Rightarrow> nat" int int
  | Get string
  | Exists string
  | Resolve request int int
  | RecordClick string clickData
  | GetStats string
  | Sweep int

record libraries =
  lib_newURL :: "string \<Rightarrow> urlObj option"
  lib_geoip_lookup :: "string \<Rightarrow> geo option"
  lib_UAParser :: "string \<Rightarrow> browser"
  env_PORT :: "string option"

fun is_Sweep :: "operation \<Rightarrow> bool" where
  "is_Sweep (Sweep _) = True"
| "is_Sweep _ = False"

text \<open>The storage after one call; \<open>None\<close> when the call does not return.\<close>

fun step :: "libraries \<Rightarrow> operation \<Rightarrow> urlStorage \<Rightarrow> urlStorage option" where
  "step L (Create req rnd now now_created) st =
     map_option snd (createShortUrl (lib_newURL L) (env_PORT L) rnd now now_created req st)"
| "step L (Get code) st = Some st"
| "step L (Exists code) st = Some st"
| "step L (Resolve req now now_click) st =
     Some (snd (redirectToUrl (lib_geoip_lookup L) (lib_UAParser L) now now_click req st))"
| "step L (RecordClick code clickData) st = Some (snd (recordClick code clickData st))"
| "step L (GetStats code) st = Some st"
| "step L (Sweep now) st = Some (snd (cleanupExpiredUrls now st))"

fun run :: "libraries \<Rightarrow> operation list \<Rightarrow> urlStorage \<Rightarrow> urlStorage option" where
  "run L [] st = Some st"
| "run L (op # ops) st = (case step L op st of None \<Rightarrow> None | Some st' \<Rightarrow> run L ops st')"

section \<open>Inputs of the examples\<close>

text \<open>
  The examples below run the handlers on a few concrete requests. They need the
  value of \<^verbatim>\<open>new URL\<close> at one address only; no location is known for any address and
  no browser is recognised.
\<close>

definition exampleURL :: "string \<Rightarrow> urlObj option" where
  "exampleURL s =
     (if s = ''https://example.com/x''
      then Some \<lparr>protocol = ''https:'', hostname = ''example.com''\<rparr>
      else None)"

definition exampleBody :: "string \<Rightarrow> jsvalue \<Rightarrow> string option \<Rightarrow> body" where
  "exampleBody u v code = \<lparr>url = Some u, validity = v, body_shortcode = code\<rparr>"

definition exampleLibs :: libraries where
  "exampleLibs =
     \<lparr>lib_newURL = exampleURL,
      lib_geoip_lookup = (\<lambda>ip. None),
      lib_UAParser = (\<lambda>ua. \<lparr>name = None, version = None\<rparr>),
      env_PORT = None\<rparr>"

definition exampleRequest :: "string \<Rightarrow> request" where
  "exampleRequest code =
     \<lparr>params_shortcode = code, header_User_Agent = None,
      req_ip = Some ''::ffff:127.0.0.1'', remoteAddress = None, header_Referer = None\<rparr>"

definition exampleClick :: clickData where
  "exampleClick =
     \<lparr>timestamp = 5, referrer = ''Direct'', location = ''Unknown'',
      userAgent = ''Unknown'', ip = ''127.0.0.1''\<rparr>"

definition exampleVisit :: clickData where
  "exampleVisit =
     \<lparr>timestamp = 1700000000123, referrer = ''https://news.example.org/'',
      location = ''Pune, IN'', userAgent = ''Chrome 120.0.0.0'', ip = ''203.0.113.7''\<rparr>"

definition exampleEntry :: "string \<Rightarrow> int \<Rightarrow> urlEntry" where
  "exampleEntry code expiry =
     \<lparr>shortcode = code, originalUrl = ''https://example.com/x'', createdAt = 0,
      expiresAt = expiry, clicks = []\<rparr>"

definition exampleBytes :: "nat \<Rightarrow> nat" where
  "exampleBytes i = [0, 1, 2, 3, 8, 44, 9, 10, 11, 12, 13, 14] ! (i mod 12)"

section \<open>The validity period\<close>

text \<open>
  Claim C9, as the specification states it: ValidateValidity yields the default 30
  for an empty input and succeeds for every input that parses as an integer in
  range. The function tests \<^verbatim>\<open>Number.isInteger\<close>, which no string passes: the empty
  string and the string \<^verbatim>\<open>"30"\<close> are both rejected.
\<close>

theorem validateValidity_string_counterexample:
  "validateValidity (JSString [])
     = \<lparr>isValid = False, error = Some ''Validity must be an integer'', validity_value = None\<rparr>
   \<and> validateValidity (JSString ''30'')
     = \<lparr>isValid = False, error = Some ''Validity must be an integer'', validity_value = None\<rparr>"
  by (simp add: validateValidity_def isInteger_def)

text \<open>
  Claim C9, amended: \<^verbatim>\<open>validateValidity\<close> yields the default value 30 when the
  input is absent (\<^verbatim>\<open>undefined\<close> or \<^verbatim>\<open>null\<close>); for every other input it succeeds,
  returning the value, exactly when the input is a number whose value is an integer
  in [1, 43200]; it fails for every input that is not a number (the empty string
  and numeric strings included), for numbers with a fractional part and for
  integers outside that range.
\<close>

theorem validateValidity_spec:
  "(v = JSUndefined \<or> v = JSNull \<longrightarrow>
      validateValidity v = \<lparr>isValid = True, error = None, validity_value = Some 30\<rparr>)
   \<and> (v \<noteq> JSUndefined \<and> v \<noteq> JSNull \<longrightarrow>
        (isValid (validateValidity v) \<longleftrightarrow>
           (\<exists>n::int. v = JSNumber (of_int n) \<and> 1 \<le> n \<and> n \<le> 43200))
        \<and> (\<forall>n::int. v = JSNumber (of_int n) \<and> 1 \<le> n \<and> n \<le> 43200 \<longrightarrow>
              validateValidity v
                = \<lparr>isValid = True, error = None, validity_value = Some n\<rparr>))"
  by (cases v) (auto simp: validateValidity_def isInteger_def)

theorem validateValidity_spec_witness:
  "validateValidity JSNull = \<lparr>isValid = True, error = None, validity_value = Some 30\<rparr>
   \<and> validateValidity (JSNumber 60) = \<lparr>isValid = True, error = None, validity_value = Some 60\<rparr>
   \<and> \<not> isValid (validateValidity (JSString ''60''))"
proof -
  have "JSNumber 60 = JSNumber (of_int 60)" by simp
  moreover have "\<not> (\<exists>n::int. JSString ''60'' = JSNumber (of_int n) \<and> 1 \<le> n \<and> n \<le> 43200)"
    by simp
  ultimately show ?thesis
    using validateValidity_spec [of JSNull] validateValidity_spec [of "JSNumber 60"]
      validateValidity_spec [of "JSString ''60''"]
    by simp
qed

section \<open>The storage\<close>

lemma update_absent:
  "map_of al k = None \<Longrightarrow> AList.update k v al = al @ [(k, v)]"
  by (induction al) (auto split: if_splits)

lemma keys_update_present:
  "map_of st code = Some e \<Longrightarrow> map fst (AList.update code e' st) = map fst st"
  by (simp add: update_keys weak_map_of_SomeI image_iff) (metis map_of_SomeD fst_conv)

lemma fold_delete_filter:
  "fold AList.delete ks al = filter (\<lambda>p. fst p \<notin> set ks) al"
proof (induction ks arbitrary: al)
  case Nil
  then show ?case by simp
next
  case (Cons k ks)
  have "AList.delete k al = filter (\<lambda>p. fst p \<noteq> k) al"
    by (simp add: AList.delete_eq case_prod_beta' eq_commute)
  with Cons show ?case by (simp cong: filter_cong)
qed

lemma recordClick_present:
  "map_of st code = Some e \<Longrightarrow>
     recordClick code ck st
       = (ReturnsUndefined, AList.update code (e\<lparr>clicks := clicks e @ [ck]\<rparr>) st)"
  by (simp add: recordClick_def)

lemma recordClick_absent:
  "map_of st code = None \<Longrightarrow> recordClick code ck st = (ReturnsUndefined, st)"
  by (simp add: recordClick_def)

text \<open>
  Claim C3, as the specification states it: without a record for the code,
  RecordClick returns NotFoundError. The function has no error to return: on an
  unknown code it returns \<^verbatim>\<open>undefined\<close>, as it does on a known one.
\<close>

theorem recordClick_counterexample:
  "recordClick ''abcd'' exampleClick [] = (ReturnsUndefined, [])
   \<and> fst (recordClick ''abcd'' exampleClick []) \<noteq> Throws NotFoundError"
  by (simp add: recordClick_def)

text \<open>
  Claim C3, amended: for every code and click, if a record for the code is present,
  \<^verbatim>\<open>recordClick\<close> appends exactly that click at the end of the record's clicks,
  leaving the record's other fields, every other record and the order of the keys
  unchanged; if no record for the code is present, it leaves all state unchanged.
  In both cases it returns nothing and raises no error.
\<close>

theorem recordClick_spec:
  "(\<forall>e. map_of st code = Some e \<longrightarrow>
      recordClick code ck st
        = (ReturnsUndefined, AList.update code (e\<lparr>clicks := clicks e @ [ck]\<rparr>) st)
      \<and> map_of (snd (recordClick code ck st))
          = (map_of st)(code \<mapsto> e\<lparr>clicks := clicks e @ [ck]\<rparr>)
      \<and> map fst (snd (recordClick code ck st)) = map fst st)
   \<and> (map_of st code = None \<longrightarrow> recordClick code ck st = (ReturnsUndefined, st))"
  by (auto simp: recordClick_present recordClick_absent update_conv' keys_update_present)

theorem recordClick_spec_witness:
  "recordClick ''abcd'' exampleClick [(''wxyz'', exampleEntry ''wxyz'' 7), (''abcd'', exampleEntry ''abcd'' 9)]
     = (ReturnsUndefined,
        [(''wxyz'', exampleEntry ''wxyz'' 7),
         (''abcd'', (exampleEntry ''abcd'' 9)\<lparr>clicks := [exampleClick]\<rparr>)])
   \<and> recordClick ''none'' exampleClick [(''wxyz'', exampleEntry ''wxyz'' 7)]
     = (ReturnsUndefined, [(''wxyz'', exampleEntry ''wxyz'' 7)])"
  using recordClick_spec [of "[(''wxyz'', exampleEntry ''wxyz'' 7), (''abcd'', exampleEntry ''abcd'' 9)]"
      "''abcd''" exampleClick]
    recordClick_spec [of "[(''wxyz'', exampleEntry ''wxyz'' 7)]" "''none''" exampleClick]
  by (simp add: exampleEntry_def)

section \<open>Statistics\<close>

text \<open>
  Claim C4: for every code with a record present, expired or not, \<^verbatim>\<open>getUrlStats\<close>
  answers with status 200, \<^verbatim>\<open>totalClicks\<close> equal to the length of the record's
  clicks and the clicks in the order of the record, oldest first, each reduced to
  its own time stamp, referrer, location and user agent label, without the address
  of the visitor; a click recorded next
  shows up last and raises the total by one. For a code with no record present the
  answer is 404, not found. The handler takes no clock reading, so expiry cannot
  change its answer.
\<close>

theorem getUrlStats_spec:
  "(\<forall>e. map_of st code = Some e \<longrightarrow>
      getUrlStats code st
        = StatsJson 200
            \<lparr>stats_shortcode = shortcode e, stats_originalUrl = originalUrl e,
             stats_createdAt = createdAt e, stats_expiresAt = expiresAt e,
             totalClicks = length (clicks e),
             stats_clicks =
               map (\<lambda>click. \<lparr>timestamp = timestamp click, referrer = referrer click,
                                location = location click, userAgent = userAgent click\<rparr>)
                   (clicks e)\<rparr>
      \<and> getUrlStats code (snd (recordClick code ck st))
        = StatsJson 200
            \<lparr>stats_shortcode = shortcode e, stats_originalUrl = originalUrl e,
             stats_createdAt = createdAt e, stats_expiresAt = expiresAt e,
             totalClicks = Suc (length (clicks e)),
             stats_clicks =
               map (\<lambda>click. \<lparr>timestamp = timestamp click, referrer = referrer click,
                                location = location click, userAgent = userAgent click\<rparr>)
                   (clicks e)
               @ [\<lparr>timestamp = timestamp ck, referrer = referrer ck,
                    location = location ck, userAgent = userAgent ck\<rparr>]\<rparr>)
   \<and> (map_of st code = None \<longrightarrow>
        getUrlStats code st = ErrorJson 404 ''Not Found'' (Some ''Short URL not found''))"
proof -
  have projection: "project_click = (\<lambda>click. \<lparr>timestamp = timestamp click, referrer = referrer click,
                                location = location click, userAgent = userAgent click\<rparr>)"
    by (rule ext) (simp add: project_click_def)
  show ?thesis
    by (auto simp: getUrlStats_def getUrl_def recordClick_present update_conv' projection)
qed

theorem getUrlStats_spec_witness:
  "getUrlStats ''abcd'' [(''abcd'', (exampleEntry ''abcd'' 9)\<lparr>clicks := [exampleVisit]\<rparr>)]
     = StatsJson 200
         \<lparr>stats_shortcode = ''abcd'', stats_originalUrl = ''https://example.com/x'',
          stats_createdAt = 0, stats_expiresAt = 9, totalClicks = 1,
          stats_clicks = [\<lparr>timestamp = 1700000000123, referrer = ''https://news.example.org/'',
                           location = ''Pune, IN'', userAgent = ''Chrome 120.0.0.0''\<rparr>]\<rparr>
   \<and> getUrlStats ''abcd''
       (snd (recordClick ''abcd'' exampleClick
               [(''abcd'', (exampleEntry ''abcd'' 9)\<lparr>clicks := [exampleVisit]\<rparr>)]))
     = StatsJson 200
         \<lparr>stats_shortcode = ''abcd'', stats_originalUrl = ''https://example.com/x'',
          stats_createdAt = 0, stats_expiresAt = 9, totalClicks = 2,
          stats_clicks = [\<lparr>timestamp = 1700000000123, referrer = ''https://news.example.org/'',
                           location = ''Pune, IN'', userAgent = ''Chrome 120.0.0.0''\<rparr>,
                          \<lparr>timestamp = 5, referrer = ''Direct'', location = ''Unknown'',
                           userAgent = ''Unknown''\<rparr>]\<rparr>
   \<and> getUrlStats ''none'' [(''abcd'', exampleEntry ''abcd'' 9)]
     = ErrorJson 404 ''Not Found'' (Some ''Short URL not found'')"
  using getUrlStats_spec [of "[(''abcd'', (exampleEntry ''abcd'' 9)\<lparr>clicks := [exampleVisit]\<rparr>)]"
      "''abcd''" exampleClick]
    getUrlStats_spec [of "[(''abcd'', exampleEntry ''abcd'' 9)]" "''none''" exampleClick]
  by (simp add: exampleEntry_def exampleClick_def exampleVisit_def)

section \<open>Redirection\<close>

text \<open>
  Claim C1: for every code, \<^verbatim>\<open>redirectToUrl\<close> answers 404 (not found) when the
  storage has no record for the code; answers 410 (expired) when a record is present
  and the time of the request is later than its \<^verbatim>\<open>expiresAt\<close>, and then neither
  deletes the record nor appends a click: the storage is unchanged; and otherwise
  redirects with status 302 to the record's \<^verbatim>\<open>originalUrl\<close> after appending
  exactly one click to that record's clicks, every other record being unchanged.
\<close>

theorem redirectToUrl_spec:
  "(map_of st (params_shortcode req) = None \<longrightarrow>
      redirectToUrl g u now now_click req st
        = (ErrorJson 404 ''Not Found'' (Some ''Short URL not found''), st))
   \<and> (\<forall>e. map_of st (params_shortcode req) = Some e \<and> now > expiresAt e \<longrightarrow>
        redirectToUrl g u now now_click req st
          = (ErrorJson 410 ''Gone'' (Some ''Short URL has expired''), st))
   \<and> (\<forall>e. map_of st (params_shortcode req) = Some e \<and> \<not> now > expiresAt e \<longrightarrow>
        redirectToUrl g u now now_click req st
          = (Redirect 302 (originalUrl e),
             AList.update (params_shortcode req)
               (e\<lparr>clicks := clicks e @ [clickData_of g u now_click req]\<rparr>) st)
        \<and> map_of (snd (redirectToUrl g u now now_click req st))
            = (map_of st)(params_shortcode req \<mapsto>
                 e\<lparr>clicks := clicks e @ [clickData_of g u now_click req]\<rparr>)
        \<and> map fst (snd (redirectToUrl g u now now_click req st)) = map fst st)"
  by (auto simp: redirectToUrl_def getUrl_def recordClick_present update_conv'
      keys_update_present)

theorem redirectToUrl_spec_witness:
  "redirectToUrl (\<lambda>ip. None) (\<lambda>ua. \<lparr>name = None, version = None\<rparr>) 9 5 (exampleRequest ''abcd'')
       [(''abcd'', exampleEntry ''abcd'' 9)]
     = (Redirect 302 ''https://example.com/x'',
        [(''abcd'', (exampleEntry ''abcd'' 9)\<lparr>clicks := [exampleClick]\<rparr>)])
   \<and> redirectToUrl (\<lambda>ip. None) (\<lambda>ua. \<lparr>name = None, version = None\<rparr>) 10 10 (exampleRequest ''abcd'')
       [(''abcd'', exampleEntry ''abcd'' 9)]
     = (ErrorJson 410 ''Gone'' (Some ''Short URL has expired''),
        [(''abcd'', exampleEntry ''abcd'' 9)])
   \<and> redirectToUrl (\<lambda>ip. None) (\<lambda>ua. \<lparr>name = None, version = None\<rparr>) 9 5 (exampleRequest ''none'')
       [(''abcd'', exampleEntry ''abcd'' 9)]
     = (ErrorJson 404 ''Not Found'' (Some ''Short URL not found''),
        [(''abcd'', exampleEntry ''abcd'' 9)])"
proof -
  have click: "clickData_of (\<lambda>ip. None) (\<lambda>ua. \<lparr>name = None, version = None\<rparr>) 5
                 (exampleRequest ''abcd'') = exampleClick"
    by (simp add: clickData_of_def exampleRequest_def exampleClick_def or_default_def
        trim_def is_space_def strip_ipv6_prefix_def is_line_terminator_def)
  show ?thesis
    using redirectToUrl_spec [of "[(''abcd'', exampleEntry ''abcd'' 9)]" "exampleRequest ''abcd''"
        "\<lambda>ip. None" "\<lambda>ua. \<lparr>name = None, version = None\<rparr>" 9 5]
      redirectToUrl_spec [of "[(''abcd'', exampleEntry ''abcd'' 9)]" "exampleRequest ''abcd''"
        "\<lambda>ip. None" "\<lambda>ua. \<lparr>name = None, version = None\<rparr>" 10 10]
      redirectToUrl_spec [of "[(''abcd'', exampleEntry ''abcd'' 9)]" "exampleRequest ''none''"
        "\<lambda>ip. None" "\<lambda>ua. \<lparr>name = None, version = None\<rparr>" 9 5]
    by (simp add: click) (simp add: exampleEntry_def exampleRequest_def)
qed

section \<open>Generated codes\<close>

lemma urlAlphabet_symbols:
  "list_all (\<lambda>c. is_alnum c \<or> c = CHR ''_'' \<or> c = CHR ''-'') urlAlphabet"
  by (simp add: urlAlphabet_def is_alnum_def is_lower_def is_upper_def is_digit_def)

lemma length_urlAlphabet: "length urlAlphabet = 64"
  by (simp add: urlAlphabet_def)

lemma nanoid_length: "length (nanoid n rnd k) = n"
  by (simp add: nanoid_def)

lemma nanoid_symbols:
  assumes "c \<in> set (nanoid n rnd k)"
  shows "is_alnum c \<or> c = CHR ''_'' \<or> c = CHR ''-''"
proof -
  from assms obtain i where "c = urlAlphabet ! (rnd i mod 64)"
    by (auto simp: nanoid_def)
  moreover have "rnd i mod 64 < length urlAlphabet"
    by (simp add: length_urlAlphabet)
  ultimately have "c \<in> set urlAlphabet"
    using nth_mem by blast
  with urlAlphabet_symbols show ?thesis
    by (simp add: list_all_iff)
qed

text \<open>What the loop returns is one of the draws, and the storage does not have it.\<close>

lemma generateShortcode_from_result:
  "generateShortcode_from rnd k st = Some code \<Longrightarrow>
     (\<exists>j. code = nanoid 6 rnd (k + 6 * j)) \<and> \<not> shortcodeExists st code"
proof (induction rule: generateShortcode_from.raw_induct[rotated 1, consumes 1])
  case (1 f rnd k st code)
  show ?case
  proof (cases "shortcodeExists st (nanoid 6 rnd k)")
    case True
    with 1(2) have "f rnd (k + 6) st = Some code" by simp
    from 1(1) [OF this] obtain j where
      "code = nanoid 6 rnd (k + 6 + 6 * j)" "\<not> shortcodeExists st code"
      by blast
    then have "code = nanoid 6 rnd (k + 6 * Suc j)" by (simp add: add.assoc)
    with \<open>\<not> shortcodeExists st code\<close> show ?thesis by blast
  next
    case False
    with 1(2) have code: "code = nanoid 6 rnd k" by simp
    then have "code = nanoid 6 rnd (k + 6 * 0)" by simp
    moreover from code False have "\<not> shortcodeExists st code" by simp
    ultimately show ?thesis by blast
  qed
qed

text \<open>The loop returns as soon as one draw is a code that the storage does not have.\<close>

lemma generateShortcode_from_returns:
  "\<not> shortcodeExists st (nanoid 6 rnd (k + 6 * j)) \<Longrightarrow>
     \<exists>code. generateShortcode_from rnd k st = Some code"
proof (induction j arbitrary: k)
  case 0
  then show ?case by (subst generateShortcode_from.simps) simp
next
  case (Suc j)
  then have "\<not> shortcodeExists st (nanoid 6 rnd (k + 6 + 6 * j))" by (simp add: add.assoc)
  from Suc.IH [OF this] show ?case
    by (subst generateShortcode_from.simps) simp
qed

lemma generateShortcode_absent:
  "generateShortcode rnd st = Some code \<Longrightarrow> \<not> shortcodeExists st code"
  unfolding generateShortcode_def by (auto dest!: generateShortcode_from_result)

text \<open>
  Claim C7, as the specification states it: every character of a generated code is
  drawn from [a-zA-Z0-9]. The alphabet of \<^verbatim>\<open>nanoid\<close> also has the underscore (index
  44) and the hyphen (index 8): on an empty storage the bytes 0, 1, 2, 3, 8, 44 give
  a code with both.
\<close>

theorem generateShortcode_counterexample:
  "generateShortcode exampleBytes [] = Some ''usea-_'' \<and> \<not> list_all is_alnum ''usea-_''"
  by (simp add: generateShortcode_def generateShortcode_from.simps shortcodeExists_def
      nanoid_def exampleBytes_def urlAlphabet_def upt_rec
      is_alnum_def is_lower_def is_upper_def is_digit_def)

text \<open>
  Claim C7, amended: every code returned by \<^verbatim>\<open>generateShortcode\<close> is exactly 6
  characters long, every character is drawn from the alphabet of \<^verbatim>\<open>nanoid\<close>, that is
  [a-zA-Z0-9] with the underscore and the hyphen, and at the moment of return the
  code is not present in the storage.
\<close>

theorem generateShortcode_spec:
  "generateShortcode rnd st = Some code \<Longrightarrow>
     length code = 6
     \<and> list_all (\<lambda>c. is_alnum c \<or> c = CHR ''_'' \<or> c = CHR ''-'') code
     \<and> \<not> shortcodeExists st code"
  unfolding generateShortcode_def
  by (auto dest!: generateShortcode_from_result simp: nanoid_length list_all_iff
      dest: nanoid_symbols)

theorem generateShortcode_spec_witness:
  "generateShortcode exampleBytes [(''usea-_'', exampleEntry ''usea-_'' 9)] = Some ''26T198''
   \<and> length ''26T198'' = 6
   \<and> list_all (\<lambda>c. is_alnum c \<or> c = CHR ''_'' \<or> c = CHR ''-'') ''26T198''
   \<and> \<not> shortcodeExists [(''usea-_'', exampleEntry ''usea-_'' 9)] ''26T198''"
proof -
  have "generateShortcode exampleBytes [(''usea-_'', exampleEntry ''usea-_'' 9)] = Some ''26T198''"
    by (simp add: generateShortcode_def generateShortcode_from.simps shortcodeExists_def
        nanoid_def exampleBytes_def urlAlphabet_def upt_rec)
  from this generateShortcode_spec [OF this] show ?thesis by simp
qed

section \<open>Creation\<close>

lemma validateUrl_valid:
  "isValid (validateUrl newURL x) \<Longrightarrow>
     \<exists>u. x = Some u \<and> u \<noteq> [] \<and> normalizedUrl (validateUrl newURL x) = Some (trim u)"
  by (auto simp: validateUrl_def url_error_def Let_def split: option.splits if_splits)

lemma validateValidity_value:
  "isValid (validateValidity v) \<Longrightarrow> \<exists>m. validity_value (validateValidity v) = Some m \<and> 1 \<le> m \<and> m \<le> 43200"
  by (cases v) (auto simp: validateValidity_def isInteger_def split: if_splits)

text \<open>What a 201 of \<^verbatim>\<open>createShortUrl\<close> says about the request and the storage.\<close>

lemma createShortUrl_created:
  assumes "createShortUrl newURL PORT rnd now now_created req st = Some (CreatedJson n link expiry, st')"
  shows "\<exists>u code m.
           url req = Some u \<and> u \<noteq> []
           \<and> isValid (validateUrl newURL (url req))
           \<and> validity_value (validateValidity (validity req)) = Some m
           \<and> (if falsy (body_shortcode req) then generateShortcode rnd st = Some code
               else body_shortcode req = Some code \<and> isValid (validateShortcode (Some code)))
           \<and> \<not> shortcodeExists st code
           \<and> n = 201 \<and> link = shortLink PORT code \<and> expiry = now + m * 60 * 1000
           \<and> st' = st @ [(code, \<lparr>shortcode = code, originalUrl = u, createdAt = now_created,
                                  expiresAt = expiry, clicks = []\<rparr>)]"
proof -
  from assms have v: "\<not> falsy (url req)" "isValid (validateUrl newURL (url req))"
    "isValid (validateValidity (validity req))"
    by (auto simp: createShortUrl_def Let_def split: if_splits)
  then obtain u where u: "url req = Some u" "u \<noteq> []"
    by (auto simp: falsy_def split: option.splits)
  from v obtain m where m: "validity_value (validateValidity (validity req)) = Some m"
    using validateValidity_value by blast
  show ?thesis
  proof (cases "falsy (body_shortcode req)")
    case True
    with assms v u m obtain code where code: "generateShortcode rnd st = Some code"
      by (auto simp: createShortUrl_def Let_def split: if_splits option.splits)
    then have "\<not> shortcodeExists st code" by (rule generateShortcode_absent)
    then have "storeUrl \<lparr>shortcode = code, originalUrl = u, createdAt = now_created,
                 expiresAt = now + m * 60 * 1000, clicks = []\<rparr> st
               = st @ [(code, \<lparr>shortcode = code, originalUrl = u, createdAt = now_created,
                                  expiresAt = now + m * 60 * 1000, clicks = []\<rparr>)]"
      by (simp add: storeUrl_def shortcodeExists_def update_absent)
    with assms v u m True code \<open>\<not> shortcodeExists st code\<close> show ?thesis
      by (auto simp: createShortUrl_def Let_def or_default_def)
  next
    case False
    then obtain code where code: "body_shortcode req = Some code" "code \<noteq> []"
      by (auto simp: falsy_def split: option.splits)
    with assms v u m False have ok: "isValid (validateShortcode (Some code))" "\<not> shortcodeExists st code"
      by (auto simp: createShortUrl_def Let_def or_default_def split: if_splits)
    then have "storeUrl \<lparr>shortcode = code, originalUrl = u, createdAt = now_created,
                 expiresAt = now + m * 60 * 1000, clicks = []\<rparr> st
               = st @ [(code, \<lparr>shortcode = code, originalUrl = u, createdAt = now_created,
                                  expiresAt = now + m * 60 * 1000, clicks = []\<rparr>)]"
      by (simp add: storeUrl_def shortcodeExists_def update_absent)
    with assms v u m False code ok show ?thesis
      by (auto simp: createShortUrl_def Let_def or_default_def)
  qed
qed

lemma redirectToUrl_live:
  "map_of st (params_shortcode req) = Some e \<Longrightarrow> \<not> now > expiresAt e \<Longrightarrow>
     fst (redirectToUrl g ua now now_click req st) = Redirect 302 (originalUrl e)"
  by (simp add: redirectToUrl_def getUrl_def)

lemma map_of_snoc_absent:
  "map_of st code = None \<Longrightarrow> map_of (st @ [(code, e)]) code = Some e"
  by (simp add: map_add_def)

lemma shortLink_inject: "shortLink PORT a = shortLink PORT b \<longleftrightarrow> a = b"
  by (simp add: shortLink_def)

lemma example_url_valid:
  "validateUrl exampleURL (Some ''https://example.com/x'')
     = \<lparr>isValid = True, error = None, normalizedUrl = Some ''https://example.com/x''\<rparr>"
  by (simp add: validateUrl_def trim_def is_space_def exampleURL_def hostnameRegex_def
      is_alnum_def is_lower_def is_upper_def is_digit_def startsWith_def endsWith_def)

lemma example_url_spaces_valid:
  "validateUrl exampleURL (Some '' https://example.com/x '')
     = \<lparr>isValid = True, error = None, normalizedUrl = Some ''https://example.com/x''\<rparr>"
  by (simp add: validateUrl_def trim_def is_space_def exampleURL_def hostnameRegex_def
      is_alnum_def is_lower_def is_upper_def is_digit_def startsWith_def endsWith_def)

lemma example_validity:
  "validateValidity (JSNumber 1) = \<lparr>isValid = True, error = None, validity_value = Some 1\<rparr>"
  "validateValidity JSUndefined = \<lparr>isValid = True, error = None, validity_value = Some 30\<rparr>"
  by (simp_all add: validateValidity_def isInteger_def)

lemma example_shortcodes:
  "validateShortcode (Some ''abcd'') = \<lparr>isValid = True, error = None\<rparr>"
  "validateShortcode (Some ''wxyz'') = \<lparr>isValid = True, error = None\<rparr>"
  by (simp_all add: validateShortcode_def alphanumericRegex_def is_alnum_def is_lower_def
      is_upper_def is_digit_def toLowerCase_def lower_char_def reservedWords_def)

lemma example_nanoid: "nanoid 6 exampleBytes 0 = ''usea-_''"
  by (simp add: nanoid_def exampleBytes_def urlAlphabet_def upt_rec)

lemma example_generated:
  "map_of st ''usea-_'' = None \<Longrightarrow> generateShortcode exampleBytes st = Some ''usea-_''"
  unfolding generateShortcode_def
  by (subst generateShortcode_from.simps) (simp add: example_nanoid shortcodeExists_def)

text \<open>
  Claim C8, as the specification states it: ValidateShortcode accepts an empty or
  absent code. The function does not: its first check rejects both.
\<close>

theorem validateShortcode_empty_counterexample:
  "isValid (validateShortcode (Some [])) = False \<and> isValid (validateShortcode None) = False"
  by (simp add: validateShortcode_def)

text \<open>
  Claim C8, amended: \<^verbatim>\<open>validateShortcode\<close> rejects an empty or absent code with
  the message that a shortcode cannot be empty; it is the handler
  \<^verbatim>\<open>createShortUrl\<close> that treats such a code as not provided: it does not ask the
  validator, and a request whose url and validity are valid goes on to a generated
  code and, when the generator returns, to status 201 with one new record. For
  every non-empty code \<^verbatim>\<open>validateShortcode\<close> succeeds exactly when the code is 4 to
  10 characters long, contains only alphanumeric characters and, put in lower case,
  is none of the reserved words api, admin, www, shorturls, health, stats; and it
  fails, with a message, otherwise.
\<close>

theorem validateShortcode_spec:
  "(code = None \<or> code = Some [] \<longrightarrow>
      validateShortcode code
        = \<lparr>isValid = False, error = Some ''Shortcode cannot be empty''\<rparr>
      \<and> (\<forall>u m. body_shortcode req = code \<and> url req = Some u
             \<and> isValid (validateUrl newURL (url req))
             \<and> isValid (validateValidity (validity req))
             \<and> validity_value (validateValidity (validity req)) = Some m \<longrightarrow>
           createShortUrl newURL PORT rnd now now_created req st
             = (case generateShortcode rnd st of
                  None \<Rightarrow> None
                | Some generated \<Rightarrow>
                    Some (CreatedJson 201 (shortLink PORT generated) (now + m * 60 * 1000),
                          st @ [(generated,
                                 \<lparr>shortcode = generated, originalUrl = u,
                                  createdAt = now_created,
                                  expiresAt = now + m * 60 * 1000, clicks = []\<rparr>)]))))
   \<and> (\<forall>s. code = Some s \<and> s \<noteq> [] \<longrightarrow>
        (isValid (validateShortcode code) \<longleftrightarrow>
           4 \<le> length s \<and> length s \<le> 10 \<and> list_all is_alnum s
           \<and> toLowerCase s \<notin> set [''api'', ''admin'', ''www'', ''shorturls'', ''health'', ''stats''])
        \<and> (\<not> isValid (validateShortcode code) \<longrightarrow> error (validateShortcode code) \<noteq> None))"
proof -
  have handler: "createShortUrl newURL PORT rnd now now_created req st
             = (case generateShortcode rnd st of
                  None \<Rightarrow> None
                | Some generated \<Rightarrow>
                    Some (CreatedJson 201 (shortLink PORT generated) (now + m * 60 * 1000),
                          st @ [(generated,
                                 \<lparr>shortcode = generated, originalUrl = u,
                                  createdAt = now_created,
                                  expiresAt = now + m * 60 * 1000, clicks = []\<rparr>)]))"
    if absent: "falsy (body_shortcode req)" and u: "url req = Some u"
      and valid: "isValid (validateUrl newURL (url req))"
        "isValid (validateValidity (validity req))"
        "validity_value (validateValidity (validity req)) = Some m"
    for u m
  proof -
    from valid(1) u have "u \<noteq> []"
      by (auto simp: validateUrl_def url_error_def)
    with u have url: "\<not> falsy (url req)" "or_default (url req) [] = u"
      by (simp_all add: falsy_def or_default_def)
    show ?thesis
    proof (cases "generateShortcode rnd st")
      case None
      with absent valid url show ?thesis
        by (simp add: createShortUrl_def Let_def)
    next
      case (Some generated)
      then have "\<not> shortcodeExists st generated"
        by (rule generateShortcode_absent)
      then have "storeUrl \<lparr>shortcode = generated, originalUrl = u, createdAt = now_created,
                   expiresAt = now + m * 60 * 1000, clicks = []\<rparr> st
                 = st @ [(generated, \<lparr>shortcode = generated, originalUrl = u,
                            createdAt = now_created,
                            expiresAt = now + m * 60 * 1000, clicks = []\<rparr>)]"
        by (simp add: storeUrl_def shortcodeExists_def update_absent)
      with Some absent valid url show ?thesis
        by (simp add: createShortUrl_def Let_def)
    qed
  qed
  have "falsy code" if "code = None \<or> code = Some []"
    using that by (auto simp: falsy_def)
  with handler show ?thesis
    by (auto simp: validateShortcode_def alphanumericRegex_def reservedWords_def)
qed

theorem validateShortcode_spec_witness:
  "validateShortcode None = \<lparr>isValid = False, error = Some ''Shortcode cannot be empty''\<rparr>
   \<and> validateShortcode (Some []) = \<lparr>isValid = False, error = Some ''Shortcode cannot be empty''\<rparr>
   \<and> createShortUrl exampleURL None exampleBytes 100 0
       (exampleBody ''https://example.com/x'' JSUndefined None) []
     = Some (CreatedJson 201 ''http://localhost:3100/usea-_'' 1800100,
             [(''usea-_'', exampleEntry ''usea-_'' 1800100)])
   \<and> createShortUrl exampleURL None exampleBytes 100 0
       (exampleBody ''https://example.com/x'' JSUndefined (Some [])) []
     = Some (CreatedJson 201 ''http://localhost:3100/usea-_'' 1800100,
             [(''usea-_'', exampleEntry ''usea-_'' 1800100)])
   \<and> isValid (validateShortcode (Some ''Abc123''))
   \<and> \<not> isValid (validateShortcode (Some ''ADMIN''))
   \<and> \<not> isValid (validateShortcode (Some ''ab''))
   \<and> \<not> isValid (validateShortcode (Some ''ab_cd''))"
proof -
  have generated: "generateShortcode exampleBytes [] = Some ''usea-_''"
    by (simp add: example_generated)
  have absent: "validateShortcode None = \<lparr>isValid = False, error = Some ''Shortcode cannot be empty''\<rparr>
    \<and> createShortUrl exampleURL None exampleBytes 100 0
       (exampleBody ''https://example.com/x'' JSUndefined None) []
     = Some (CreatedJson 201 ''http://localhost:3100/usea-_'' 1800100,
             [(''usea-_'', exampleEntry ''usea-_'' 1800100)])"
    using validateShortcode_spec [where code = None
        and req = "exampleBody ''https://example.com/x'' JSUndefined None"
        and newURL = exampleURL and PORT = None and rnd = exampleBytes and now = 100
        and now_created = 0 and st = "[]"]
    by (simp add: exampleBody_def example_url_valid example_validity generated
        shortLink_def or_default_def exampleEntry_def)
  have empty: "validateShortcode (Some []) = \<lparr>isValid = False, error = Some ''Shortcode cannot be empty''\<rparr>
    \<and> createShortUrl exampleURL None exampleBytes 100 0
       (exampleBody ''https://example.com/x'' JSUndefined (Some [])) []
     = Some (CreatedJson 201 ''http://localhost:3100/usea-_'' 1800100,
             [(''usea-_'', exampleEntry ''usea-_'' 1800100)])"
    using validateShortcode_spec [where code = "Some []"
        and req = "exampleBody ''https://example.com/x'' JSUndefined (Some [])"
        and newURL = exampleURL and PORT = None and rnd = exampleBytes and now = 100
        and now_created = 0 and st = "[]"]
    by (simp add: exampleBody_def example_url_valid example_validity generated
        shortLink_def or_default_def exampleEntry_def)
  have given: "isValid (validateShortcode (Some ''Abc123''))
    \<and> \<not> isValid (validateShortcode (Some ''ADMIN''))
    \<and> \<not> isValid (validateShortcode (Some ''ab''))
    \<and> \<not> isValid (validateShortcode (Some ''ab_cd''))"
    using validateShortcode_spec [where code = "Some ''Abc123''"]
      validateShortcode_spec [where code = "Some ''ADMIN''"]
      validateShortcode_spec [where code = "Some ''ab''"]
      validateShortcode_spec [where code = "Some ''ab_cd''"]
    by (simp add: is_alnum_def is_lower_def is_upper_def is_digit_def toLowerCase_def
        lower_char_def char_of_eq_iff)
  from absent empty given show ?thesis by simp
qed

text \<open>
  Claim C2: for every custom shortcode of a request that passed validation,
  \<^verbatim>\<open>createShortUrl\<close> answers 409 (conflict) exactly when the storage already has a
  record for the code, and then the storage is unchanged: no record is inserted or
  replaced; otherwise it answers 201 and inserts a new record for the code, after
  all the records that were there. A code denotes a live record as long as the
  storage has an entry for it (\<^verbatim>\<open>shortcodeExists\<close>), whether or not that entry has
  expired.
\<close>

theorem createShortUrl_collision:
  assumes "body_shortcode req = Some code"
    and "isValid (validateUrl newURL (url req))"
    and "isValid (validateValidity (validity req))"
    and "isValid (validateShortcode (Some code))"
    and "url req = Some u"
    and "validity_value (validateValidity (validity req)) = Some m"
  shows "createShortUrl newURL PORT rnd now now_created req st
         = (if shortcodeExists st code
            then Some (ErrorJson 409 ''Conflict''
                         (Some ''Shortcode already exists. Please choose a different one.''), st)
            else Some (CreatedJson 201 (shortLink PORT code) (now + m * 60 * 1000),
                       st @ [(code, \<lparr>shortcode = code, originalUrl = u, createdAt = now_created,
                                     expiresAt = now + m * 60 * 1000, clicks = []\<rparr>)]))"
proof -
  from assms(4) have "code \<noteq> []"
    by (auto simp: validateShortcode_def)
  with assms(1) have sc: "\<not> falsy (body_shortcode req)" "or_default (body_shortcode req) [] = code"
    by (simp_all add: falsy_def or_default_def)
  from assms(2,5) have "u \<noteq> []"
    by (auto simp: validateUrl_def url_error_def)
  with assms(5) have u: "\<not> falsy (url req)" "or_default (url req) [] = u"
    by (simp_all add: falsy_def or_default_def)
  show ?thesis
  proof (cases "shortcodeExists st code")
    case True
    with assms sc u show ?thesis
      by (simp add: createShortUrl_def Let_def)
  next
    case False
    then have "storeUrl \<lparr>shortcode = code, originalUrl = u, createdAt = now_created,
                 expiresAt = now + m * 60 * 1000, clicks = []\<rparr> st
               = st @ [(code, \<lparr>shortcode = code, originalUrl = u, createdAt = now_created,
                                  expiresAt = now + m * 60 * 1000, clicks = []\<rparr>)]"
      by (simp add: storeUrl_def shortcodeExists_def update_absent)
    with False assms sc u show ?thesis
      by (simp add: createShortUrl_def Let_def)
  qed
qed

theorem createShortUrl_collision_witness:
  "createShortUrl exampleURL None exampleBytes 100 101
       (exampleBody ''https://example.com/x'' (JSNumber 1) (Some ''abcd''))
       [(''abcd'', exampleEntry ''abcd'' 9)]
     = Some (ErrorJson 409 ''Conflict''
               (Some ''Shortcode already exists. Please choose a different one.''),
             [(''abcd'', exampleEntry ''abcd'' 9)])
   \<and> createShortUrl exampleURL None exampleBytes 100 101
       (exampleBody ''https://example.com/x'' (JSNumber 1) (Some ''wxyz''))
       [(''abcd'', exampleEntry ''abcd'' 9)]
     = Some (CreatedJson 201 ''http://localhost:3100/wxyz'' 60100,
             [(''abcd'', exampleEntry ''abcd'' 9),
              (''wxyz'', \<lparr>shortcode = ''wxyz'', originalUrl = ''https://example.com/x'',
                           createdAt = 101, expiresAt = 60100, clicks = []\<rparr>)])"
  using createShortUrl_collision [where req = "exampleBody ''https://example.com/x'' (JSNumber 1) (Some ''abcd'')"
      and code = "''abcd''" and newURL = exampleURL and u = "''https://example.com/x''" and m = 1
      and PORT = None and rnd = exampleBytes and now = 100 and now_created = 101
      and st = "[(''abcd'', exampleEntry ''abcd'' 9)]"]
    createShortUrl_collision [where req = "exampleBody ''https://example.com/x'' (JSNumber 1) (Some ''wxyz'')"
      and code = "''wxyz''" and newURL = exampleURL and u = "''https://example.com/x''" and m = 1
      and PORT = None and rnd = exampleBytes and now = 100 and now_created = 101
      and st = "[(''abcd'', exampleEntry ''abcd'' 9)]"]
  by (simp add: exampleBody_def example_url_valid example_validity example_shortcodes
      shortcodeExists_def shortLink_def or_default_def)

text \<open>
  Claim C5: whenever \<^verbatim>\<open>createShortUrl\<close> succeeds on a request with url \<open>u\<close>, with
  a custom or a generated code, \<^verbatim>\<open>redirectToUrl\<close> on the code of the returned short
  link, at any time up to the returned expiry, redirects to \<open>u\<close>.
\<close>

theorem create_then_resolve:
  assumes "createShortUrl newURL PORT rnd now now_created req st
             = Some (CreatedJson n link expiry, st')"
    and "url req = Some u"
  shows "\<exists>code. link = shortLink PORT code
           \<and> (\<forall>rq t t'. params_shortcode rq = code \<and> t \<le> expiry \<longrightarrow>
                 fst (redirectToUrl g ua t t' rq st') = Redirect 302 u)"
proof -
  from createShortUrl_created [OF assms(1)] assms(2) obtain code where
    link: "link = shortLink PORT code" and absent: "\<not> shortcodeExists st code" and
    st': "st' = st @ [(code, \<lparr>shortcode = code, originalUrl = u, createdAt = now_created,
                             expiresAt = expiry, clicks = []\<rparr>)]"
    by auto
  from absent have "map_of st' code
      = Some \<lparr>shortcode = code, originalUrl = u, createdAt = now_created,
              expiresAt = expiry, clicks = []\<rparr>"
    unfolding st' by (simp add: shortcodeExists_def map_add_def)
  then have "\<forall>rq t t'. params_shortcode rq = code \<and> t \<le> expiry \<longrightarrow>
                 fst (redirectToUrl g ua t t' rq st') = Redirect 302 u"
    by (auto simp: redirectToUrl_live)
  with link show ?thesis by blast
qed

theorem create_then_resolve_witness:
  "createShortUrl exampleURL None exampleBytes 100 101
       (exampleBody ''https://example.com/x'' JSUndefined None) []
     = Some (CreatedJson 201 ''http://localhost:3100/usea-_'' 1800100,
             [(''usea-_'', \<lparr>shortcode = ''usea-_'', originalUrl = ''https://example.com/x'',
                            createdAt = 101, expiresAt = 1800100, clicks = []\<rparr>)])
   \<and> fst (redirectToUrl (\<lambda>ip. None) (\<lambda>ua. \<lparr>name = None, version = None\<rparr>) 1800100 1800100
            (exampleRequest ''usea-_'')
            [(''usea-_'', \<lparr>shortcode = ''usea-_'', originalUrl = ''https://example.com/x'',
                           createdAt = 101, expiresAt = 1800100, clicks = []\<rparr>)])
     = Redirect 302 ''https://example.com/x''"
proof -
  have code: "generateShortcode exampleBytes [] = Some ''usea-_''"
    by (simp add: generateShortcode_def generateShortcode_from.simps shortcodeExists_def
        nanoid_def exampleBytes_def urlAlphabet_def upt_rec)
  have created: "createShortUrl exampleURL None exampleBytes 100 101
       (exampleBody ''https://example.com/x'' JSUndefined None) []
     = Some (CreatedJson 201 (shortLink None ''usea-_'') 1800100,
             [(''usea-_'', \<lparr>shortcode = ''usea-_'', originalUrl = ''https://example.com/x'',
                            createdAt = 101, expiresAt = 1800100, clicks = []\<rparr>)])"
    by (simp add: createShortUrl_def exampleBody_def example_url_valid example_validity code
        falsy_def or_default_def storeUrl_def)
  have "url (exampleBody ''https://example.com/x'' JSUndefined None) = Some ''https://example.com/x''"
    by (simp add: exampleBody_def)
  from create_then_resolve [OF created this, of "\<lambda>ip. None" "\<lambda>ua. \<lparr>name = None, version = None\<rparr>"]
  have "fst (redirectToUrl (\<lambda>ip. None) (\<lambda>ua. \<lparr>name = None, version = None\<rparr>) 1800100 1800100
            (exampleRequest ''usea-_'')
            [(''usea-_'', \<lparr>shortcode = ''usea-_'', originalUrl = ''https://example.com/x'',
                           createdAt = 101, expiresAt = 1800100, clicks = []\<rparr>)])
     = Redirect 302 ''https://example.com/x''"
    by (auto simp: shortLink_inject exampleRequest_def)
  with created show ?thesis
    by (simp add: shortLink_def or_default_def)
qed

text \<open>
  Claim C10: for every create request whose url \<open>u\<close> passes validation and which
  succeeds, the stored record's \<^verbatim>\<open>originalUrl\<close> is \<open>u\<close> itself, while the
  \<^verbatim>\<open>normalizedUrl\<close> that the validation returned is the trimmed \<open>u\<close>; a later
  \<^verbatim>\<open>redirectToUrl\<close> hands \<open>u\<close>, untrimmed, to \<^verbatim>\<open>res.redirect\<close>.
\<close>

theorem stored_url_is_raw:
  assumes "createShortUrl newURL PORT rnd now now_created req st
             = Some (CreatedJson n link expiry, st')"
    and "url req = Some u"
  shows "\<exists>code e. link = shortLink PORT code \<and> map_of st' code = Some e
           \<and> originalUrl e = u
           \<and> normalizedUrl (validateUrl newURL (url req)) = Some (trim u)
           \<and> (\<forall>rq t t'. params_shortcode rq = code \<and> t \<le> expiry \<longrightarrow>
                 fst (redirectToUrl g ua t t' rq st') = Redirect 302 u)"
proof -
  from createShortUrl_created [OF assms(1)] assms(2) obtain code where
    link: "link = shortLink PORT code" and absent: "\<not> shortcodeExists st code" and
    valid: "isValid (validateUrl newURL (url req))" and
    st': "st' = st @ [(code, \<lparr>shortcode = code, originalUrl = u, createdAt = now_created,
                             expiresAt = expiry, clicks = []\<rparr>)]"
    by auto
  from valid assms(2) have norm: "normalizedUrl (validateUrl newURL (url req)) = Some (trim u)"
    by (auto dest: validateUrl_valid)
  from absent have e: "map_of st' code
      = Some \<lparr>shortcode = code, originalUrl = u, createdAt = now_created,
              expiresAt = expiry, clicks = []\<rparr>"
    unfolding st' by (simp add: shortcodeExists_def map_add_def)
  then have "\<forall>rq t t'. params_shortcode rq = code \<and> t \<le> expiry \<longrightarrow>
                 fst (redirectToUrl g ua t t' rq st') = Redirect 302 u"
    by (auto simp: redirectToUrl_live)
  with link e norm show ?thesis
    by (intro exI [of _ code]
          exI [of _ "\<lparr>shortcode = code, originalUrl = u, createdAt = now_created,
                      expiresAt = expiry, clicks = []\<rparr>"]) simp
qed

theorem stored_url_is_raw_witness:
  "createShortUrl exampleURL None exampleBytes 100 101
       (exampleBody '' https://example.com/x '' (JSNumber 1) (Some ''abcd'')) []
     = Some (CreatedJson 201 ''http://localhost:3100/abcd'' 60100,
             [(''abcd'', \<lparr>shortcode = ''abcd'', originalUrl = '' https://example.com/x '',
                          createdAt = 101, expiresAt = 60100, clicks = []\<rparr>)])
   \<and> normalizedUrl (validateUrl exampleURL (Some '' https://example.com/x ''))
     = Some ''https://example.com/x''
   \<and> fst (redirectToUrl (\<lambda>ip. None) (\<lambda>ua. \<lparr>name = None, version = None\<rparr>) 200 200
            (exampleRequest ''abcd'')
            [(''abcd'', \<lparr>shortcode = ''abcd'', originalUrl = '' https://example.com/x '',
                         createdAt = 101, expiresAt = 60100, clicks = []\<rparr>)])
     = Redirect 302 '' https://example.com/x ''"
proof -
  have created: "createShortUrl exampleURL None exampleBytes 100 101
       (exampleBody '' https://example.com/x '' (JSNumber 1) (Some ''abcd'')) []
     = Some (CreatedJson 201 (shortLink None ''abcd'') 60100,
             [(''abcd'', \<lparr>shortcode = ''abcd'', originalUrl = '' https://example.com/x '',
                          createdAt = 101, expiresAt = 60100, clicks = []\<rparr>)])"
    by (simp add: createShortUrl_def exampleBody_def example_url_spaces_valid example_validity
        example_shortcodes falsy_def or_default_def storeUrl_def shortcodeExists_def)
  have "url (exampleBody '' https://example.com/x '' (JSNumber 1) (Some ''abcd''))
          = Some '' https://example.com/x ''"
    by (simp add: exampleBody_def)
  from stored_url_is_raw [OF created this, of "\<lambda>ip. None" "\<lambda>ua. \<lparr>name = None, version = None\<rparr>"]
  have "fst (redirectToUrl (\<lambda>ip. None) (\<lambda>ua. \<lparr>name = None, version = None\<rparr>) 200 200
            (exampleRequest ''abcd'')
            [(''abcd'', \<lparr>shortcode = ''abcd'', originalUrl = '' https://example.com/x '',
                         createdAt = 101, expiresAt = 60100, clicks = []\<rparr>)])
     = Redirect 302 '' https://example.com/x ''"
    by (auto simp: shortLink_inject exampleRequest_def)
  with created show ?thesis
    by (simp add: shortLink_def or_default_def example_url_spaces_valid)
qed

section \<open>Lifetime of a record\<close>

text \<open>A call of \<^verbatim>\<open>createShortUrl\<close> leaves the storage as it is or appends one new key.\<close>

lemma createShortUrl_storage:
  "createShortUrl newURL PORT rnd now now_created req st = Some (r, st') \<Longrightarrow>
     st' = st \<or> (\<exists>code e. \<not> shortcodeExists st code \<and> st' = st @ [(code, e)])"
proof (cases r)
  case (CreatedJson n link expiry)
  assume "createShortUrl newURL PORT rnd now now_created req st = Some (r, st')"
  with CreatedJson show ?thesis
    by (auto dest!: createShortUrl_created)
next
  case (ErrorJson n err msg)
  assume "createShortUrl newURL PORT rnd now now_created req st = Some (r, st')"
  with ErrorJson show ?thesis
    by (auto simp: createShortUrl_def Let_def split: if_splits option.splits)
next
  case (StatsJson n stats)
  assume "createShortUrl newURL PORT rnd now now_created req st = Some (r, st')"
  with StatsJson show ?thesis
    by (auto simp: createShortUrl_def Let_def split: if_splits option.splits)
next
  case (Redirect n target)
  assume "createShortUrl newURL PORT rnd now now_created req st = Some (r, st')"
  with Redirect show ?thesis
    by (auto simp: createShortUrl_def Let_def split: if_splits option.splits)
qed

lemma recordClick_keeps:
  "shortcodeExists st c \<Longrightarrow> shortcodeExists (snd (recordClick code ck st)) c"
  by (auto simp: recordClick_def shortcodeExists_def update_conv' split: option.splits)

lemma redirectToUrl_keeps:
  "shortcodeExists st c \<Longrightarrow> shortcodeExists (snd (redirectToUrl g ua now now_click req st)) c"
  by (auto simp: redirectToUrl_def Let_def recordClick_keeps split: option.splits)

lemma step_keeps:
  assumes "\<not> is_Sweep op" and "step L op st = Some st'" and "shortcodeExists st c"
  shows "shortcodeExists st' c"
proof (cases op)
  case (Create req rnd now now_created)
  with assms(2) obtain r where
    "createShortUrl (lib_newURL L) (env_PORT L) rnd now now_created req st = Some (r, st')"
    by auto
  from createShortUrl_storage [OF this] assms(3) show ?thesis
    by (auto simp: shortcodeExists_def map_add_def split: option.splits)
next
  case (Sweep now)
  with assms(1) show ?thesis by simp
qed (use assms in \<open>auto simp: recordClick_keeps redirectToUrl_keeps\<close>)

lemma run_keeps:
  "list_all (\<lambda>op. \<not> is_Sweep op) ops \<Longrightarrow> run L ops st = Some st' \<Longrightarrow>
     shortcodeExists st c \<Longrightarrow> shortcodeExists st' c"
proof (induction ops arbitrary: st)
  case Nil
  then show ?case by simp
next
  case (Cons op ops)
  from Cons.prems obtain st1 where st1: "step L op st = Some st1" "run L ops st1 = Some st'"
    by (auto split: option.splits)
  from Cons.prems st1 have "shortcodeExists st1 c"
    by (auto intro: step_keeps)
  with Cons st1 show ?case by simp
qed

text \<open>The keys of the storage stay distinct, as those of a \<^verbatim>\<open>Map\<close> are.\<close>

lemma cleanup_storage:
  "snd (cleanupExpiredUrls now st)
     = filter (\<lambda>p. fst p \<notin> set (map fst (filter (\<lambda>(code, e). expiresAt e < now) st))) st"
  by (simp add: cleanupExpiredUrls_def fold_delete_filter)

lemma step_distinct:
  assumes "step L op st = Some st'" and "distinct (map fst st)"
  shows "distinct (map fst st')"
proof (cases op)
  case (Create req rnd now now_created)
  with assms(1) obtain r where
    "createShortUrl (lib_newURL L) (env_PORT L) rnd now now_created req st = Some (r, st')"
    by auto
  from createShortUrl_storage [OF this] assms(2) show ?thesis
    by (auto simp: shortcodeExists_def map_of_eq_None_iff)
next
  case (Resolve req now now_click)
  with assms show ?thesis
    by (auto simp: redirectToUrl_def recordClick_def Let_def distinct_update split: option.splits)
next
  case (RecordClick code ck)
  with assms show ?thesis
    by (auto simp: recordClick_def distinct_update split: option.splits)
next
  case (Sweep now)
  with assms show ?thesis
    by (auto simp: cleanup_storage distinct_map_filter)
qed (use assms in auto)

lemma run_distinct:
  "run L ops st = Some st' \<Longrightarrow> distinct (map fst st) \<Longrightarrow> distinct (map fst st')"
proof (induction ops arbitrary: st)
  case Nil
  then show ?case by simp
next
  case (Cons op ops)
  from Cons.prems obtain st1 where st1: "step L op st = Some st1" "run L ops st1 = Some st'"
    by (auto split: option.splits)
  with Cons.prems have "distinct (map fst st1)"
    by (auto intro: step_distinct)
  with Cons st1 show ?case by simp
qed

lemma expired_keys:
  assumes "distinct (map fst st)" and "p \<in> set st"
  shows "fst p \<in> set (map fst (filter (\<lambda>(code, e). expiresAt e < now) st))
           \<longleftrightarrow> expiresAt (snd p) < now"
proof
  assume "fst p \<in> set (map fst (filter (\<lambda>(code, e). expiresAt e < now) st))"
  then obtain q where q: "q \<in> set st" "fst q = fst p" "expiresAt (snd q) < now"
    by (auto simp: case_prod_beta')
  with assms have "q = p"
    by (metis eq_key_imp_eq_value prod.collapse)
  with q show "expiresAt (snd p) < now" by simp
next
  assume "expiresAt (snd p) < now"
  with assms(2) show "fst p \<in> set (map fst (filter (\<lambda>(code, e). expiresAt e < now) st))"
    by (force simp: case_prod_beta')
qed

lemma cleanup_filter:
  assumes "distinct (map fst st)"
  shows "cleanupExpiredUrls now st
           = (length (filter (\<lambda>(code, e). expiresAt e < now) st),
              filter (\<lambda>(code, e). \<not> expiresAt e < now) st)"
proof -
  have "filter (\<lambda>p. fst p \<notin> set (map fst (filter (\<lambda>(code, e). expiresAt e < now) st))) st
        = filter (\<lambda>(code, e). \<not> expiresAt e < now) st"
    using expired_keys [OF assms] by (intro filter_cong) (auto simp: case_prod_beta')
  then show ?thesis
    by (simp add: cleanupExpiredUrls_def fold_delete_filter)
qed

text \<open>
  Claim C6: in every storage that a run of the service reaches from the empty one,
  once \<^verbatim>\<open>createShortUrl\<close> succeeds for a code, \<^verbatim>\<open>shortcodeExists\<close> holds for that code
  at once and after every further sequence of calls (get, exists, redirect, click
  recording, statistics, other creations) that contains no sweep; and
  \<^verbatim>\<open>cleanupExpiredUrls\<close> removes exactly the records whose \<^verbatim>\<open>expiresAt\<close> lies
  before the current time, keeps the others in their order, and returns the number
  of records removed.
\<close>

theorem exists_until_sweep:
  assumes "run L history [] = Some st"
  shows "(createShortUrl (lib_newURL L) (env_PORT L) rnd now now_created req st
            = Some (CreatedJson 201 (shortLink (env_PORT L) code) expiry, st1)
          \<and> list_all (\<lambda>op. \<not> is_Sweep op) ops \<and> run L ops st1 = Some st2
          \<longrightarrow> shortcodeExists st1 code \<and> shortcodeExists st2 code)
       \<and> cleanupExpiredUrls t st
           = (length (filter (\<lambda>(code, e). expiresAt e < t) st),
              filter (\<lambda>(code, e). \<not> expiresAt e < t) st)
       \<and> fst (cleanupExpiredUrls t st) + length (snd (cleanupExpiredUrls t st)) = length st"
proof -
  from assms have d: "distinct (map fst st)"
    by (auto dest: run_distinct)
  have "shortcodeExists st1 code \<and> shortcodeExists st2 code"
    if created: "createShortUrl (lib_newURL L) (env_PORT L) rnd now now_created req st
            = Some (CreatedJson 201 (shortLink (env_PORT L) code) expiry, st1)"
      and ops: "list_all (\<lambda>op. \<not> is_Sweep op) ops" "run L ops st1 = Some st2"
  proof -
    from createShortUrl_created [OF created] obtain e where
      "\<not> shortcodeExists st code" "st1 = st @ [(code, e)]"
      by (auto simp: shortLink_inject)
    then have "shortcodeExists st1 code"
      by (simp add: shortcodeExists_def map_add_def)
    with ops show ?thesis
      by (auto dest: run_keeps)
  qed
  moreover note cleanup_filter [OF d, of t]
  moreover have "length (filter (\<lambda>(code, e). expiresAt e < t) st)
                   + length (filter (\<lambda>(code, e). \<not> expiresAt e < t) st) = length st"
    using sum_length_filter_compl [of "\<lambda>(code, e). expiresAt e < t" st]
    by (simp add: case_prod_beta')
  ultimately show ?thesis by simp
qed


theorem exists_until_sweep_witness:
  "run exampleLibs
       [Create (exampleBody ''https://example.com/x'' (JSNumber 1) (Some ''abcd'')) exampleBytes 100 0,
        Create (exampleBody ''https://example.com/x'' JSUndefined (Some ''wxyz'')) exampleBytes 200 0]
       []
     = Some [(''abcd'', exampleEntry ''abcd'' 60100), (''wxyz'', exampleEntry ''wxyz'' 1800200)]
   \<and> createShortUrl exampleURL None exampleBytes 300 0
       (exampleBody ''https://example.com/x'' JSUndefined None)
       [(''abcd'', exampleEntry ''abcd'' 60100), (''wxyz'', exampleEntry ''wxyz'' 1800200)]
     = Some (CreatedJson 201 ''http://localhost:3100/usea-_'' 1800300,
             [(''abcd'', exampleEntry ''abcd'' 60100), (''wxyz'', exampleEntry ''wxyz'' 1800200),
              (''usea-_'', exampleEntry ''usea-_'' 1800300)])
   \<and> run exampleLibs
       [Resolve (exampleRequest ''usea-_'') 400 5, GetStats ''usea-_'',
        RecordClick ''usea-_'' exampleClick, Get ''abcd'', Exists ''none'',
        Create (exampleBody ''https://example.com/x'' JSUndefined (Some ''usea-_'')) exampleBytes 500 0]
       [(''abcd'', exampleEntry ''abcd'' 60100), (''wxyz'', exampleEntry ''wxyz'' 1800200),
        (''usea-_'', exampleEntry ''usea-_'' 1800300)]
     = Some [(''abcd'', exampleEntry ''abcd'' 60100), (''wxyz'', exampleEntry ''wxyz'' 1800200),
             (''usea-_'', (exampleEntry ''usea-_'' 1800300)\<lparr>clicks := [exampleClick, exampleClick]\<rparr>)]
   \<and> shortcodeExists
       [(''abcd'', exampleEntry ''abcd'' 60100), (''wxyz'', exampleEntry ''wxyz'' 1800200),
        (''usea-_'', (exampleEntry ''usea-_'' 1800300)\<lparr>clicks := [exampleClick, exampleClick]\<rparr>)]
       ''usea-_''
   \<and> cleanupExpiredUrls 60101
       [(''abcd'', exampleEntry ''abcd'' 60100), (''wxyz'', exampleEntry ''wxyz'' 1800200)]
     = (1, [(''wxyz'', exampleEntry ''wxyz'' 1800200)])"
proof -
  let ?st = "[(''abcd'', exampleEntry ''abcd'' 60100), (''wxyz'', exampleEntry ''wxyz'' 1800200)]"
  let ?st1 = "?st @ [(''usea-_'', exampleEntry ''usea-_'' 1800300)]"
  let ?st2 = "?st @ [(''usea-_'', (exampleEntry ''usea-_'' 1800300)\<lparr>clicks := [exampleClick, exampleClick]\<rparr>)]"
  let ?ops = "[Resolve (exampleRequest ''usea-_'') 400 5, GetStats ''usea-_'',
        RecordClick ''usea-_'' exampleClick, Get ''abcd'', Exists ''none'',
        Create (exampleBody ''https://example.com/x'' JSUndefined (Some ''usea-_'')) exampleBytes 500 0]"
  have history: "run exampleLibs
       [Create (exampleBody ''https://example.com/x'' (JSNumber 1) (Some ''abcd'')) exampleBytes 100 0,
        Create (exampleBody ''https://example.com/x'' JSUndefined (Some ''wxyz'')) exampleBytes 200 0]
       [] = Some ?st"
    by (simp add: exampleLibs_def createShortUrl_def exampleBody_def example_url_valid
        example_validity example_shortcodes falsy_def or_default_def storeUrl_def
        shortcodeExists_def exampleEntry_def)
  have created: "createShortUrl (lib_newURL exampleLibs) (env_PORT exampleLibs) exampleBytes 300 0
       (exampleBody ''https://example.com/x'' JSUndefined None) ?st
     = Some (CreatedJson 201 (shortLink (env_PORT exampleLibs) ''usea-_'') 1800300, ?st1)"
    by (simp add: exampleLibs_def createShortUrl_def exampleBody_def example_url_valid
        example_validity example_generated falsy_def or_default_def storeUrl_def
        exampleEntry_def)
  have click: "clickData_of (\<lambda>ip. None) (\<lambda>ua. \<lparr>name = None, version = None\<rparr>) 5
                 (exampleRequest ''usea-_'') = exampleClick"
    by (simp add: clickData_of_def exampleRequest_def exampleClick_def or_default_def
        trim_def is_space_def strip_ipv6_prefix_def is_line_terminator_def)
  have ops: "run exampleLibs ?ops ?st1 = Some ?st2"
    by (simp add: exampleLibs_def redirectToUrl_def getUrl_def click recordClick_def
        createShortUrl_def exampleBody_def example_url_valid example_validity
        falsy_def or_default_def shortcodeExists_def validateShortcode_def
        alphanumericRegex_def is_alnum_def is_lower_def is_upper_def is_digit_def)
       (simp add: exampleEntry_def exampleRequest_def)
  have free: "list_all (\<lambda>op. \<not> is_Sweep op) ?ops"
    by simp
  from exists_until_sweep [OF history, of exampleBytes 300 0
      "exampleBody ''https://example.com/x'' JSUndefined None" "''usea-_''" 1800300 ?st1 ?ops ?st2 60101]
    created ops free
  have "shortcodeExists ?st2 ''usea-_''"
    and "cleanupExpiredUrls 60101 ?st = (1, [(''wxyz'', exampleEntry ''wxyz'' 1800200)])"
    by (simp_all add: exampleEntry_def)
  with history created ops show ?thesis
    by (simp add: exampleLibs_def shortLink_def or_default_def)
qed

end
